theory Spec2Isabelle
  imports Main
begin

section \<open>Python values used by the WiFi manager\<close>

text \<open>
  The development embeds \<^verbatim>\<open>src/backend/boot/wifi.py\<close> (class \<^verbatim>\<open>WiFiManager\<close>).
  Text is a \<^typ>\<open>string\<close> whose characters stand for code points below 256.
  Every exception the code can meet is a value of \<open>exn\<close>; a call either returns,
  raises, or never comes back because an external process started without a timeout
  never exits.
\<close>

datatype exn =
    TimeoutExpired | CalledProcessError
  | FileNotFoundError | PermissionError
  | KeyError | IndexError | ValueError
  | ZeroDivisionError | OverflowError | UnboundLocalError

datatype 'a result = Returned 'a | Raised exn | Hangs

text \<open>\<^verbatim>\<open>FileNotFoundError\<close> and \<^verbatim>\<open>PermissionError\<close> are the subclasses of
  \<^verbatim>\<open>OSError\<close> met here; \<^verbatim>\<open>TimeoutExpired\<close> and \<^verbatim>\<open>CalledProcessError\<close> those of
  \<^verbatim>\<open>subprocess.SubprocessError\<close>.\<close>

definition is_OSError :: "exn \<Rightarrow> bool" where
  "is_OSError e = (e = FileNotFoundError \<or> e = PermissionError)"

definition is_SubprocessError :: "exn \<Rightarrow> bool" where
  "is_SubprocessError e = (e = TimeoutExpired \<or> e = CalledProcessError)"

subsection \<open>String methods\<close>

text \<open>The characters \<^verbatim>\<open>str.strip()\<close> and \<^verbatim>\<open>str.split()\<close> treat as white space.\<close>

definition whitespace :: "char list" where
  "whitespace = [CHR 0x09, CHR 0x0A, CHR 0x0B, CHR 0x0C, CHR 0x0D,
                 CHR 0x1C, CHR 0x1D, CHR 0x1E, CHR 0x1F, CHR 0x20, CHR 0x85, CHR 0xA0]"

definition lstrip_chars :: "char list \<Rightarrow> string \<Rightarrow> string" where
  "lstrip_chars cs s = dropWhile (\<lambda>c. c \<in> set cs) s"

definition rstrip_chars :: "char list \<Rightarrow> string \<Rightarrow> string" where
  "rstrip_chars cs s = rev (dropWhile (\<lambda>c. c \<in> set cs) (rev s))"

definition strip_chars :: "char list \<Rightarrow> string \<Rightarrow> string" where
  "strip_chars cs s = rstrip_chars cs (lstrip_chars cs s)"

definition strip :: "string \<Rightarrow> string" where
  "strip s = strip_chars whitespace s"

definition startswith :: "string \<Rightarrow> string \<Rightarrow> bool" where
  "startswith s p = (take (length p) s = p)"

text \<open>\<^verbatim>\<open>sub in s\<close>.\<close>

fun contains :: "string \<Rightarrow> string \<Rightarrow> bool" where
  "contains sub [] = (sub = [])"
| "contains sub (c # cs) = (startswith (c # cs) sub \<or> contains sub cs)"

text \<open>\<^verbatim>\<open>s.split(sep)\<close> for a non-empty separator: \<open>acc\<close> holds the current piece,
  reversed.\<close>

fun split_from :: "string \<Rightarrow> string \<Rightarrow> string \<Rightarrow> string list" where
  "split_from sep acc [] = [rev acc]"
| "split_from sep acc (c # cs) =
     (if sep \<noteq> [] \<and> startswith (c # cs) sep
      then rev acc # split_from sep [] (drop (length sep) (c # cs))
      else split_from sep (c # acc) cs)"

definition split :: "string \<Rightarrow> string \<Rightarrow> string list" where
  "split s sep = split_from sep [] s"

text \<open>\<^verbatim>\<open>s.split()\<close>: pieces between runs of white space, none of them empty.\<close>

fun split_ws_from :: "string \<Rightarrow> string \<Rightarrow> string list" where
  "split_ws_from acc [] = (if acc = [] then [] else [rev acc])"
| "split_ws_from acc (c # cs) =
     (if c \<in> set whitespace
      then (if acc = [] then split_ws_from [] cs else rev acc # split_ws_from [] cs)
      else split_ws_from (c # acc) cs)"

definition split_ws :: "string \<Rightarrow> string list" where
  "split_ws s = split_ws_from [] s"

text \<open>\<^verbatim>\<open>xs[i]\<close> for \<open>i \<ge> 0\<close>: out of range raises \<^verbatim>\<open>IndexError\<close>.\<close>

definition index :: "'a list \<Rightarrow> nat \<Rightarrow> 'a result" where
  "index xs i = (if i < length xs then Returned (xs ! i) else Raised IndexError)"

section \<open>External processes\<close>

text \<open>
  What an external command does when it is started: it exits with a return code and
  its standard output, runs longer than any timeout, or cannot be started because the
  program is missing or may not be executed.
\<close>

datatype outcome = Exited int string | RunsOver | NotFound | Denied

text \<open>\<^verbatim>\<open>subprocess.run(argv, check=..., timeout=...)\<close>; \<open>timed\<close> says that a timeout
  was given. The value returned is the pair of \<^verbatim>\<open>returncode\<close> and \<^verbatim>\<open>stdout\<close>.\<close>

definition subprocess_run :: "bool \<Rightarrow> bool \<Rightarrow> outcome \<Rightarrow> (int \<times> string) result" where
  "subprocess_run check timed out =
     (case out of
        Exited rc text \<Rightarrow>
          if check \<and> rc \<noteq> 0 then Raised CalledProcessError else Returned (rc, text)
      | RunsOver \<Rightarrow> if timed then Raised TimeoutExpired else Hangs
      | NotFound \<Rightarrow> Raised FileNotFoundError
      | Denied \<Rightarrow> Raised PermissionError)"

text \<open>The command ran and returned 0.\<close>

definition exits_zero :: "outcome \<Rightarrow> bool" where
  "exits_zero out = (case out of Exited rc text \<Rightarrow> rc = 0 | _ \<Rightarrow> False)"

datatype command =
    HotspotStart string string int
  | HotspotStop
  | RestartDhcpcd
  | StopHostapd
  | StopDnsmasq
  | FlushWlan0
  | RestartWpaSupplicant
  | WpaCliReconfigure
  | Chmod600

section \<open>The manager's state\<close>

record wifi_config =
  cfg_ssid :: "string option"
  cfg_password :: string
  hotspot_ssid :: string
  hotspot_password :: string
  hotspot_channel :: int

record wifi_manager =
  config :: wifi_config
  connected :: bool
  hotspot_active :: bool
  current_ssid :: "string option"
  ip_address :: "string option"

text \<open>\<^verbatim>\<open>WiFiManager.__init__\<close>.\<close>

definition init :: "wifi_config \<Rightarrow> wifi_manager" where
  "init wifi_config =
     \<lparr>config = wifi_config, connected = False, hotspot_active = False,
      current_ssid = None, ip_address = None\<rparr>"

section \<open>Stopping and starting the hotspot\<close>

text \<open>
  \<^verbatim>\<open>WiFiManager.stop_hotspot\<close>. \<open>run c\<close> is what command \<open>c\<close> does when it is
  issued. The value is the result of the call, the manager afterwards, and the commands
  issued, in order. \<open>stop_hotspot_try\<close> is the body of the \<^verbatim>\<open>try\<close> statement,
  \<open>stop_hotspot\<close> adds its \<^verbatim>\<open>except\<close> clause.
\<close>

definition stop_hotspot_try ::
  "(command \<Rightarrow> outcome) \<Rightarrow> wifi_manager \<Rightarrow> bool result \<times> wifi_manager \<times> command list" where
  "stop_hotspot_try run s =
     (case subprocess_run False True (run HotspotStop) of
        Raised e \<Rightarrow> (Raised e, s, [HotspotStop])
      | Hangs \<Rightarrow> (Hangs, s, [HotspotStop])
      | Returned result \<Rightarrow>
          if fst result = 0 then
            (let s1 = s\<lparr>hotspot_active := False\<rparr> in
             case subprocess_run False True (run RestartDhcpcd) of
               Raised e \<Rightarrow> (Raised e, s1, [HotspotStop, RestartDhcpcd])
             | Hangs \<Rightarrow> (Hangs, s1, [HotspotStop, RestartDhcpcd])
             | Returned _ \<Rightarrow> (Returned True, s1, [HotspotStop, RestartDhcpcd]))
          else
            (case subprocess_run True False (run StopHostapd) of
               Raised e \<Rightarrow> (Raised e, s, [HotspotStop, StopHostapd])
             | Hangs \<Rightarrow> (Hangs, s, [HotspotStop, StopHostapd])
             | Returned _ \<Rightarrow>
                 (case subprocess_run True False (run StopDnsmasq) of
                    Raised e \<Rightarrow> (Raised e, s, [HotspotStop, StopHostapd, StopDnsmasq])
                  | Hangs \<Rightarrow> (Hangs, s, [HotspotStop, StopHostapd, StopDnsmasq])
                  | Returned _ \<Rightarrow>
                      (case subprocess_run True False (run FlushWlan0) of
                         Raised e \<Rightarrow>
                           (Raised e, s, [HotspotStop, StopHostapd, StopDnsmasq, FlushWlan0])
                       | Hangs \<Rightarrow>
                           (Hangs, s, [HotspotStop, StopHostapd, StopDnsmasq, FlushWlan0])
                       | Returned _ \<Rightarrow>
                           (Returned False, s\<lparr>hotspot_active := False\<rparr>,
                            [HotspotStop, StopHostapd, StopDnsmasq, FlushWlan0])))))"

definition stop_hotspot ::
  "(command \<Rightarrow> outcome) \<Rightarrow> wifi_manager \<Rightarrow> bool result \<times> wifi_manager \<times> command list" where
  "stop_hotspot run s =
     (case stop_hotspot_try run s of
        (Raised e, s', issued) \<Rightarrow>
          if e = TimeoutExpired \<or> e = CalledProcessError \<or> e = FileNotFoundError
          then (Returned False, s'\<lparr>hotspot_active := False\<rparr>, issued)
          else (Raised e, s', issued)
      | r \<Rightarrow> r)"

text \<open>
  \<^verbatim>\<open>WiFiManager.start_hotspot\<close>. The inner \<^verbatim>\<open>except\<close> clause turns a timeout, a
  missing helper and a refused helper into \<^verbatim>\<open>False\<close>; the outer one does the same for
  every other exception. The check of the configuration directory only logs a warning.
\<close>

definition start_hotspot ::
  "(command \<Rightarrow> outcome) \<Rightarrow> wifi_manager \<Rightarrow> bool result \<times> wifi_manager \<times> command list" where
  "start_hotspot run s =
     (let helper = HotspotStart (hotspot_ssid (config s)) (hotspot_password (config s))
                     (hotspot_channel (config s)) in
      case subprocess_run False True (run helper) of
        Returned result \<Rightarrow>
          if fst result = 0
          then (Returned True,
                s\<lparr>hotspot_active := True, connected := False, current_ssid := None,
                  ip_address := Some ''192.168.24.1''\<rparr>, [helper])
          else (Returned False, s, [helper])
      | Raised e \<Rightarrow> (Returned False, s, [helper])
      | Hangs \<Rightarrow> (Hangs, s, [helper]))"

section \<open>The link probe\<close>

text \<open>
  What the operating system shows to one call of \<^verbatim>\<open>get_current_network_info\<close>: what
  \<^verbatim>\<open>iwgetid -r\<close> does, what the \<^verbatim>\<open>netifaces\<close> lookup of the IPv4 address of
  \<^verbatim>\<open>wlan0\<close> evaluates to (\<open>None\<close> when the interface or the address family is
  absent), and what \<^verbatim>\<open>cat /proc/net/wireless\<close> does.
\<close>

record link_obs =
  iwgetid :: outcome
  wlan0_inet :: "string option result"
  proc_net_wireless :: outcome

text \<open>The dictionary the probe returns, read with \<^verbatim>\<open>.get\<close>: an absent key reads as
  \<open>None\<close>, so \<^verbatim>\<open>{'connected': False}\<close> is \<open>not_connected\<close>.\<close>

record network_info =
  ni_ssid :: "string option"
  ni_ip_address :: "string option"
  ni_signal_strength :: "string option"
  ni_connected :: bool

definition not_connected :: network_info where
  "not_connected =
     \<lparr>ni_ssid = None, ni_ip_address = None, ni_signal_strength = None, ni_connected = False\<rparr>"

text \<open>\<^verbatim>\<open>try: r except <caught>: pass\<close>, where the variable assigned in \<open>r\<close> keeps
  its earlier value \<open>dflt\<close>.\<close>

definition catching :: "(exn \<Rightarrow> bool) \<Rightarrow> 'a \<Rightarrow> 'a result \<Rightarrow> 'a result" where
  "catching caught dflt r =
     (case r of Raised e \<Rightarrow> if caught e then Returned dflt else Raised e | _ \<Rightarrow> r)"

text \<open>The loop over the lines of \<^verbatim>\<open>/proc/net/wireless\<close>; it ends at the first line
  that mentions \<^verbatim>\<open>wlan0\<close>.\<close>

fun signal_of_lines :: "string list \<Rightarrow> string option" where
  "signal_of_lines [] = None"
| "signal_of_lines (line # rest) =
     (if contains ''wlan0'' line
      then (let parts = split_ws line in
            if 4 \<le> length parts then Some (rstrip_chars ''.'' (parts ! 3)) else None)
      else signal_of_lines rest)"

definition get_current_network_info :: "link_obs \<Rightarrow> network_info result" where
  "get_current_network_info obs =
     (case subprocess_run False False (iwgetid obs) of
        Hangs \<Rightarrow> Hangs
      | Raised e \<Rightarrow> Returned not_connected
      | Returned result \<Rightarrow>
          (let current_ssid = (if fst result = 0 then Some (strip (snd result)) else None) in
           case catching (\<lambda>e. e = KeyError \<or> e = IndexError \<or> is_OSError e) None
                  (wlan0_inet obs) of
             Hangs \<Rightarrow> Hangs
           | Raised e \<Rightarrow> Returned not_connected
           | Returned ip \<Rightarrow>
               (case catching
                       (\<lambda>e. is_SubprocessError e \<or> e = FileNotFoundError \<or> e = IndexError)
                       None
                       (case subprocess_run False False (proc_net_wireless obs) of
                          Returned r \<Rightarrow> Returned (signal_of_lines (split (snd r) [CHR 0x0A]))
                        | Raised e \<Rightarrow> Raised e
                        | Hangs \<Rightarrow> Hangs) of
                  Hangs \<Rightarrow> Hangs
                | Raised e \<Rightarrow> Returned not_connected
                | Returned signal_strength \<Rightarrow>
                    Returned
                      \<lparr>ni_ssid = current_ssid, ni_ip_address = ip,
                       ni_signal_strength = signal_strength,
                       ni_connected = (current_ssid \<noteq> None \<and> ip \<noteq> None)\<rparr>)))"

section \<open>Rewriting the supplicant configuration\<close>

text \<open>\<^verbatim>\<open>f.readlines()\<close>: the text cut after every newline.\<close>

fun readlines_from :: "string \<Rightarrow> string \<Rightarrow> string list" where
  "readlines_from acc [] = (if acc = [] then [] else [rev acc])"
| "readlines_from acc (c # cs) =
     (if c = CHR 0x0A then rev (c # acc) # readlines_from [] cs
      else readlines_from (c # acc) cs)"

definition readlines :: "string \<Rightarrow> string list" where
  "readlines text = readlines_from [] text"

text \<open>
  The variables of the loop of \<^verbatim>\<open>_update_wpa_supplicant\<close>. \<^verbatim>\<open>current_block\<close> is not
  assigned before the loop: \<open>None\<close> is the unbound variable, and reading it raises
  \<^verbatim>\<open>UnboundLocalError\<close>.
\<close>

record rewrite_state =
  new_lines :: "string list"
  in_network_block :: bool
  network_ssid :: "string option"
  current_block :: "string list option"

definition rewrite_start :: rewrite_state where
  "rewrite_start =
     \<lparr>new_lines = [], in_network_block = False, network_ssid = None, current_block = None\<rparr>"

definition quote :: string where
  "quote = [CHR 0x22]"

definition nl :: string where
  "nl = [CHR 0x0A]"

text \<open>One pass of the loop body, on \<open>line\<close>.\<close>

definition rewrite_step :: "string \<Rightarrow> rewrite_state \<Rightarrow> string \<Rightarrow> rewrite_state result" where
  "rewrite_step ssid st line =
     (if startswith (strip line) ''network={'' then
        Returned (st\<lparr>in_network_block := True, network_ssid := None\<rparr>)
      else if strip line = ''}'' \<and> in_network_block st then
        (if network_ssid st \<noteq> Some ssid then
           (case current_block st of
              None \<Rightarrow> Raised UnboundLocalError
            | Some block \<Rightarrow>
                Returned (st\<lparr>in_network_block := False,
                             new_lines := new_lines st @ block @ [line],
                             current_block := Some []\<rparr>))
         else Returned (st\<lparr>in_network_block := False, current_block := Some []\<rparr>))
      else if in_network_block st then
        (if startswith (strip line) ''ssid='' then
           (case index (split line ''='') 1 of
              Returned v \<Rightarrow>
                Returned (st\<lparr>network_ssid := Some (strip_chars quote (strip v)),
                             current_block := Some [''network={'' @ nl, line]\<rparr>)
            | Raised e \<Rightarrow> Raised e
            | Hangs \<Rightarrow> Hangs)
         else
           (case current_block st of
              None \<Rightarrow> Raised UnboundLocalError
            | Some block \<Rightarrow> Returned (st\<lparr>current_block := Some (block @ [line])\<rparr>)))
      else Returned (st\<lparr>new_lines := new_lines st @ [line]\<rparr>))"

fun rewrite_lines :: "string \<Rightarrow> rewrite_state \<Rightarrow> string list \<Rightarrow> rewrite_state result" where
  "rewrite_lines ssid st [] = Returned st"
| "rewrite_lines ssid st (line # rest) =
     (case rewrite_step ssid st line of
        Returned st' \<Rightarrow> rewrite_lines ssid st' rest
      | Raised e \<Rightarrow> Raised e
      | Hangs \<Rightarrow> Hangs)"

text \<open>The network block appended for the target.\<close>

definition new_block :: "string \<Rightarrow> string \<Rightarrow> string list" where
  "new_block ssid password =
     [nl @ ''network={'' @ nl,
      ''    ssid='' @ quote @ ssid @ quote @ nl,
      (if password \<noteq> [] then ''    psk='' @ quote @ password @ quote @ nl
       else ''    key_mgmt=NONE'' @ nl),
      ''    priority=1'' @ nl,
      ''}'' @ nl]"

text \<open>
  The world one call of \<^verbatim>\<open>connect_to_network\<close> runs in: what each command does when
  issued; the text of the configuration file (\<open>Returned None\<close>: no such file;
  \<open>Raised e\<close>: opening or reading it raises \<open>e\<close>); whether opening it for writing
  raises; and what the operating system shows to the probe at each poll.
\<close>

record world =
  proc :: "command \<Rightarrow> outcome"
  conf_read :: "string option result"
  conf_write :: "exn option"
  link :: "nat \<Rightarrow> link_obs"

text \<open>\<^verbatim>\<open>WiFiManager._update_wpa_supplicant\<close>: the result, and the text the file holds
  afterwards when it was written.\<close>

definition update_wpa_supplicant ::
  "world \<Rightarrow> string \<Rightarrow> string \<Rightarrow> bool result \<times> string option" where
  "update_wpa_supplicant w ssid password =
     (case conf_read w of
        Hangs \<Rightarrow> (Hangs, None)
      | Raised e \<Rightarrow> (Returned False, None)
      | Returned existing \<Rightarrow>
          (let config_lines = (case existing of None \<Rightarrow> [] | Some text \<Rightarrow> readlines text) in
           case rewrite_lines ssid rewrite_start config_lines of
             Hangs \<Rightarrow> (Hangs, None)
           | Raised e \<Rightarrow> (Returned False, None)
           | Returned st \<Rightarrow>
               (let written = concat (new_lines st @ new_block ssid password) in
                case conf_write w of
                  Some e \<Rightarrow> (Returned False, None)
                | None \<Rightarrow>
                    (case subprocess_run False False (proc w Chmod600) of
                       Hangs \<Rightarrow> (Hangs, Some written)
                     | Raised e \<Rightarrow> (Returned False, Some written)
                     | Returned _ \<Rightarrow> (Returned True, Some written)))))"

section \<open>Connecting as a client\<close>

text \<open>The assignments made when a poll finds the requested network: the client
  fields, the hotspot flag and the stored credentials.\<close>

definition joined :: "string \<Rightarrow> string \<Rightarrow> string option \<Rightarrow> wifi_manager \<Rightarrow> wifi_manager" where
  "joined ssid password ip s =
     s\<lparr>connected := True, current_ssid := Some ssid, ip_address := ip,
       hotspot_active := False,
       config := (config s)\<lparr>cfg_ssid := Some ssid, cfg_password := password\<rparr>\<rparr>"

text \<open>The test of the loop body: the probe's answer at poll \<open>k\<close> is connected and
  names the requested network.\<close>

definition matches :: "world \<Rightarrow> string \<Rightarrow> nat \<Rightarrow> bool" where
  "matches w ssid k =
     (case get_current_network_info (link w k) of
        Returned network_info \<Rightarrow> ni_connected network_info \<and> ni_ssid network_info = Some ssid
      | _ \<Rightarrow> False)"

text \<open>
  The polling loop of \<^verbatim>\<open>connect_to_network\<close>, \<^verbatim>\<open>for attempt in range(30)\<close>:
  \<open>attempt\<close> is the loop variable and the last argument before the state counts the
  passes left. The value is the result, the manager afterwards and the number of polls
  made so far.
\<close>

fun connect_wait ::
  "world \<Rightarrow> string \<Rightarrow> string \<Rightarrow> nat \<Rightarrow> nat \<Rightarrow> wifi_manager \<Rightarrow> bool result \<times> wifi_manager \<times> nat" where
  "connect_wait w ssid password attempt 0 s = (Returned False, s, attempt)"
| "connect_wait w ssid password attempt (Suc left) s =
     (case get_current_network_info (link w attempt) of
        Hangs \<Rightarrow> (Hangs, s, Suc attempt)
      | Raised e \<Rightarrow> (Raised e, s, Suc attempt)
      | Returned network_info \<Rightarrow>
          if ni_connected network_info \<and> ni_ssid network_info = Some ssid
          then (Returned True, joined ssid password (ni_ip_address network_info) s,
                Suc attempt)
          else connect_wait w ssid password (Suc attempt) left s)"

text \<open>The body of the \<^verbatim>\<open>try\<close> statement of \<^verbatim>\<open>connect_to_network\<close>.\<close>

definition connect_to_network_try ::
  "world \<Rightarrow> string \<Rightarrow> string \<Rightarrow> wifi_manager \<Rightarrow> bool result \<times> wifi_manager \<times> nat" where
  "connect_to_network_try w ssid password s =
     (case (if hotspot_active s
            then (case stop_hotspot (proc w) s of (r, s', issued) \<Rightarrow> (r, s'))
            else (Returned True, s)) of
        (Hangs, s1) \<Rightarrow> (Hangs, s1, 0)
      | (Raised e, s1) \<Rightarrow> (Raised e, s1, 0)
      | (Returned stopped, s1) \<Rightarrow>
          (case fst (update_wpa_supplicant w ssid password) of
             Hangs \<Rightarrow> (Hangs, s1, 0)
           | Raised e \<Rightarrow> (Raised e, s1, 0)
           | Returned updated \<Rightarrow>
               if \<not> updated then (Returned False, s1, 0)
               else
                 (case subprocess_run False False (proc w RestartWpaSupplicant) of
                    Hangs \<Rightarrow> (Hangs, s1, 0)
                  | Raised e \<Rightarrow> (Raised e, s1, 0)
                  | Returned _ \<Rightarrow>
                      (case subprocess_run False False (proc w WpaCliReconfigure) of
                         Hangs \<Rightarrow> (Hangs, s1, 0)
                       | Raised e \<Rightarrow> (Raised e, s1, 0)
                       | Returned _ \<Rightarrow> connect_wait w ssid password 0 30 s1))))"

text \<open>\<^verbatim>\<open>WiFiManager.connect_to_network\<close>: every exception of the body is caught and
  reported as \<^verbatim>\<open>False\<close>.\<close>

definition connect_to_network ::
  "world \<Rightarrow> string \<Rightarrow> string \<Rightarrow> wifi_manager \<Rightarrow> bool result \<times> wifi_manager \<times> nat" where
  "connect_to_network w ssid password s =
     (case connect_to_network_try w ssid password s of
        (Raised e, s', polls) \<Rightarrow> (Returned False, s', polls)
      | r \<Rightarrow> r)"

text \<open>\<^verbatim>\<open>WiFiManager.connect\<close>: \<^verbatim>\<open>not self.config.ssid\<close> holds for \<^verbatim>\<open>None\<close> and for the
  empty string.\<close>

definition connect :: "world \<Rightarrow> wifi_manager \<Rightarrow> bool result \<times> wifi_manager \<times> nat" where
  "connect w s =
     (case cfg_ssid (config s) of
        None \<Rightarrow> (Returned False, s, 0)
      | Some ssid \<Rightarrow>
          if ssid = [] then (Returned False, s, 0)
          else connect_to_network w ssid (cfg_password (config s)) s)"

section \<open>Status and shutdown\<close>

record status =
  st_connected :: bool
  st_hotspot_active :: bool
  st_current_ssid :: "string option"
  st_ip_address :: "string option"
  st_configured_ssid :: "string option"
  st_hotspot_ssid :: string
  st_signal_strength :: "string option"
  st_network_info :: network_info

text \<open>\<^verbatim>\<open>WiFiManager.get_status\<close>.\<close>

definition get_status :: "link_obs \<Rightarrow> wifi_manager \<Rightarrow> status result \<times> wifi_manager" where
  "get_status obs s =
     (case get_current_network_info obs of
        Hangs \<Rightarrow> (Hangs, s)
      | Raised e \<Rightarrow> (Raised e, s)
      | Returned network_info \<Rightarrow>
          (Returned
             \<lparr>st_connected = connected s, st_hotspot_active = hotspot_active s,
              st_current_ssid = current_ssid s, st_ip_address = ip_address s,
              st_configured_ssid = cfg_ssid (config s),
              st_hotspot_ssid = hotspot_ssid (config s),
              st_signal_strength = ni_signal_strength network_info,
              st_network_info = network_info\<rparr>, s))"

text \<open>\<^verbatim>\<open>WiFiManager.cleanup\<close>: the result of \<^verbatim>\<open>stop_hotspot\<close> is dropped, an exception
  it raises is not caught.\<close>

definition cleanup :: "(command \<Rightarrow> outcome) \<Rightarrow> wifi_manager \<Rightarrow> unit result \<times> wifi_manager" where
  "cleanup run s =
     (if hotspot_active s
      then (case stop_hotspot run s of
              (Returned b, s', issued) \<Rightarrow> (Returned (), s')
            | (Raised e, s', issued) \<Rightarrow> (Raised e, s')
            | (Hangs, s', issued) \<Rightarrow> (Hangs, s'))
      else (Returned (), s))"

section \<open>Reachable states\<close>

text \<open>The states the manager can be in: the one \<^verbatim>\<open>__init__\<close> builds, and every
  state a public method leaves behind, whatever the world does and however the call
  ends.\<close>

inductive reachable :: "wifi_manager \<Rightarrow> bool" where
  initial: "reachable (init wifi_config)"
| after_connect_to_network:
    "reachable s \<Longrightarrow> connect_to_network w ssid password s = (r, s', polls) \<Longrightarrow> reachable s'"
| after_connect:
    "reachable s \<Longrightarrow> connect w s = (r, s', polls) \<Longrightarrow> reachable s'"
| after_start_hotspot:
    "reachable s \<Longrightarrow> start_hotspot run s = (r, s', issued) \<Longrightarrow> reachable s'"
| after_stop_hotspot:
    "reachable s \<Longrightarrow> stop_hotspot run s = (r, s', issued) \<Longrightarrow> reachable s'"
| after_get_status:
    "reachable s \<Longrightarrow> get_status obs s = (q, s') \<Longrightarrow> reachable s'"
| after_cleanup:
    "reachable s \<Longrightarrow> cleanup run s = (u, s') \<Longrightarrow> reachable s'"

section \<open>Sample worlds\<close>

definition loop_config :: wifi_config where
  "loop_config =
     \<lparr>cfg_ssid = None, cfg_password = [], hotspot_ssid = ''LOOP-Setup'',
      hotspot_password = ''loop1234'', hotspot_channel = 7\<rparr>"

text \<open>The manager with the hotspot up, and the manager joined to the network
  \<^verbatim>\<open>Office\<close>.\<close>

definition hotspot_up :: wifi_manager where
  "hotspot_up = (init loop_config)\<lparr>hotspot_active := True, ip_address := Some ''192.168.24.1''\<rparr>"

definition at_office :: wifi_manager where
  "at_office = joined ''Office'' ''secret'' (Some ''10.0.0.7'') (init loop_config)"

text \<open>The helper script fails and so does the first manual command.\<close>

definition hostapd_stuck :: "command \<Rightarrow> outcome" where
  "hostapd_stuck c = (if c = HotspotStop \<or> c = StopHostapd then Exited 1 [] else Exited 0 [])"

text \<open>The helper script succeeds and the restart of \<^verbatim>\<open>dhcpcd\<close> outlasts its
  timeout.\<close>

definition dhcpcd_slow :: "command \<Rightarrow> outcome" where
  "dhcpcd_slow c = (if c = RestartDhcpcd then RunsOver else Exited 0 [])"

text \<open>A link associated with the network \<open>name\<close> with an address, and a world in
  which every command succeeds, no configuration file exists yet, and the link is
  associated with \<^verbatim>\<open>Office\<close> until poll \<open>n\<close> and with \<^verbatim>\<open>Home\<close> from then on.\<close>

definition linked :: "string \<Rightarrow> link_obs" where
  "linked name =
     \<lparr>iwgetid = Exited 0 (name @ nl), wlan0_inet = Returned (Some ''10.0.0.7''),
      proc_net_wireless = Exited 0 []\<rparr>"

definition home_after :: "nat \<Rightarrow> world" where
  "home_after n =
     \<lparr>proc = (\<lambda>c. Exited 0 []), conf_read = Returned None, conf_write = None,
      link = (\<lambda>k. if k < n then linked ''Office'' else linked ''Home'')\<rparr>"

section \<open>Numbers\<close>

text \<open>
  \<^verbatim>\<open>int(s)\<close> for a string: white space is stripped at both ends (the white space of
  \<^verbatim>\<open>strip()\<close> without the four separators \<^verbatim>\<open>0x1C\<close> to \<^verbatim>\<open>0x1F\<close>), then comes an
  optional sign and decimal digits, with single underscores allowed between digits.
  Anything else raises \<^verbatim>\<open>ValueError\<close>. The limit on the number of digits that newer
  interpreters apply raises \<^verbatim>\<open>ValueError\<close> as well and is left out.
\<close>

definition int_space :: "char list" where
  "int_space = [CHR 0x09, CHR 0x0A, CHR 0x0B, CHR 0x0C, CHR 0x0D, CHR 0x20, CHR 0x85, CHR 0xA0]"

text \<open>The place of a character in a string, counted from 0; the value of a decimal
  digit is its place among the digits.\<close>

fun position :: "char \<Rightarrow> string \<Rightarrow> nat option" where
  "position c [] = None"
| "position c (d # ds) = (if c = d then Some 0 else map_option Suc (position c ds))"

definition digit_of :: "char \<Rightarrow> int option" where
  "digit_of c = map_option int (position c ''0123456789'')"

text \<open>\<open>after_digit\<close> says that the character before was a digit.\<close>

fun parse_digits :: "int \<Rightarrow> bool \<Rightarrow> string \<Rightarrow> int option" where
  "parse_digits acc after_digit [] = (if after_digit then Some acc else None)"
| "parse_digits acc after_digit (c # cs) =
     (case digit_of c of
        Some v \<Rightarrow> parse_digits (10 * acc + v) True cs
      | None \<Rightarrow> if c = CHR ''_'' \<and> after_digit then parse_digits acc False cs else None)"

definition int_str :: "string \<Rightarrow> int result" where
  "int_str s =
     (let t = strip_chars int_space s;
          negative = startswith t ''-'';
          body = (if startswith t ''-'' \<or> startswith t ''+'' then tl t else t) in
      case parse_digits 0 False body of
        None \<Rightarrow> Raised ValueError
      | Some n \<Rightarrow> Returned (if negative then - n else n))"

text \<open>
  Floating point. A finite double of magnitude \<open>m * 2 ^ e\<close> is the pair \<open>(m, e)\<close>,
  with \<open>m \<le> 2 ^ 53\<close> and \<open>- 1074 \<le> e\<close>; the sign is kept apart. \<open>to_double n d\<close>
  is the double nearest to the fraction \<open>n / d\<close> of two positive integers, ties going
  to the even mantissa, as IEEE 754 division and multiplication round and as Python
  rounds the true division of two integers; \<open>None\<close> is a magnitude of \<open>2 ^ 1024\<close> or
  more.
\<close>

function bit_length :: "int \<Rightarrow> nat" where
  "bit_length n = (if n \<le> 0 then 0 else Suc (bit_length (n div 2)))"
  by auto
termination
  by (relation "measure nat") auto

declare bit_length.simps [simp del]

text \<open>The integer nearest to \<open>n / d\<close>, ties to even.\<close>

definition round_half_even :: "int \<Rightarrow> int \<Rightarrow> int" where
  "round_half_even n d =
     (let q = n div d; r = n mod d in
      if 2 * r < d then q else if d < 2 * r then q + 1 else if even q then q else q + 1)"

text \<open>The exponent \<open>e\<close> that puts \<open>n / d / 2 ^ e\<close> into \<open>[2 ^ 52, 2 ^ 53)\<close>, not below
  the exponent of the subnormal numbers.\<close>

definition exponent :: "int \<Rightarrow> int \<Rightarrow> int" where
  "exponent n d =
     (let e0 = int (bit_length n) - int (bit_length d) - 53 in
      max (- 1074) (if n * 2 ^ nat (- e0) < 2 ^ 53 * (d * 2 ^ nat e0) then e0 else e0 + 1))"

definition to_double :: "int \<Rightarrow> int \<Rightarrow> (int \<times> int) option" where
  "to_double n d =
     (let e = exponent n d;
          m = round_half_even (n * 2 ^ nat (- e)) (d * 2 ^ nat e) in
      if 2 ^ 1024 \<le> m * 2 ^ nat e then None else Some (m, e))"

text \<open>The product of a double and \<open>100.0\<close>.\<close>

definition times_100 :: "int \<times> int \<Rightarrow> (int \<times> int) option" where
  "times_100 x =
     (case x of (m, e) \<Rightarrow>
        if m = 0 then Some (0, e) else to_double (100 * m * 2 ^ nat e) (2 ^ nat (- e)))"

text \<open>\<^verbatim>\<open>int(x)\<close> for a double: the fraction is cut off.\<close>

definition int_of_double :: "int \<times> int \<Rightarrow> int" where
  "int_of_double x = (case x of (m, e) \<Rightarrow> (m * 2 ^ nat e) div 2 ^ nat (- e))"

text \<open>
  \<^verbatim>\<open>int((current / max_val) * 100)\<close> for two integers. The division raises
  \<^verbatim>\<open>ZeroDivisionError\<close> for a zero divisor and \<^verbatim>\<open>OverflowError\<close> when the quotient is
  too large for a double; a product too large is infinite, and \<^verbatim>\<open>int\<close> of it raises
  \<^verbatim>\<open>OverflowError\<close>.
\<close>

definition percent :: "int \<Rightarrow> int \<Rightarrow> int result" where
  "percent current max_val =
     (if max_val = 0 then Raised ZeroDivisionError
      else if current = 0 then Returned 0
      else case to_double \<bar>current\<bar> \<bar>max_val\<bar> of
             None \<Rightarrow> Raised OverflowError
           | Some x \<Rightarrow>
               (case times_100 x of
                  None \<Rightarrow> Raised OverflowError
                | Some y \<Rightarrow> Returned (sgn current * sgn max_val * int_of_double y)))"


section \<open>Scanning for networks\<close>

text \<open>The dictionary built for one network; an absent key is \<open>None\<close> and the empty
  dictionary is \<open>no_network\<close>.\<close>

record network =
  net_bssid :: "string option"
  net_ssid :: "string option"
  net_quality :: "int option"
  net_encrypted :: "bool option"

definition no_network :: network where
  "no_network = \<lparr>net_bssid = None, net_ssid = None, net_quality = None, net_encrypted = None\<rparr>"

text \<open>Sequencing: the second step runs on the value the first returns.\<close>

definition and_then :: "'a result \<Rightarrow> ('a \<Rightarrow> 'b result) \<Rightarrow> 'b result" where
  "and_then r f = (case r of Returned x \<Rightarrow> f x | Raised e \<Rightarrow> Raised e | Hangs \<Rightarrow> Hangs)"

text \<open>\<^verbatim>\<open>s.lower()\<close>, on the letters below code point 256.\<close>

definition lower_char :: "char \<Rightarrow> char" where
  "lower_char c =
     (let n = (of_char c :: nat) in
      if (65 \<le> n \<and> n \<le> 90) \<or> (192 \<le> n \<and> n \<le> 222 \<and> n \<noteq> 215) then char_of (n + 32) else c)"

definition lower :: "string \<Rightarrow> string" where
  "lower s = map lower_char s"

text \<open>
  The statements of the \<^verbatim>\<open>try\<close> block for a \<^verbatim>\<open>Quality=\<close> line up to the two calls of
  \<^verbatim>\<open>int\<close>: the token after \<^verbatim>\<open>Quality=\<close> up to the next blank, and when it holds a
  slash, its two sides as integers. \<open>Returned None\<close>: the token holds no slash.
\<close>

definition parse_ratio :: "string \<Rightarrow> (int \<times> int) option result" where
  "parse_ratio line =
     and_then (index (split line ''Quality='') 1) (\<lambda>rest.
     and_then (index (split rest '' '') 0) (\<lambda>quality_part.
       if contains ''/'' quality_part then
         (case split quality_part ''/'' of
            [current, max_val] \<Rightarrow>
              and_then (int_str current) (\<lambda>c.
              and_then (int_str max_val) (\<lambda>m. Returned (Some (c, m))))
          | _ \<Rightarrow> Raised ValueError)
       else Returned None))"

text \<open>The whole \<^verbatim>\<open>try\<close> statement: the quality to store, if any. Only \<^verbatim>\<open>IndexError\<close>
  and \<^verbatim>\<open>ValueError\<close> are caught.\<close>

definition quality_of_line :: "string \<Rightarrow> int option result" where
  "quality_of_line line =
     catching (\<lambda>e. e = IndexError \<or> e = ValueError) None
       (and_then (parse_ratio line) (\<lambda>ratio.
          case ratio of
            None \<Rightarrow> Returned None
          | Some (c, m) \<Rightarrow> and_then (percent c m) (\<lambda>quality. Returned (Some quality))))"

text \<open>One pass of the loop over the lines of the scan output; the state is the list
  \<^verbatim>\<open>networks\<close> and the dictionary \<^verbatim>\<open>current_network\<close>.\<close>

definition scan_step :: "network list \<times> network \<Rightarrow> string \<Rightarrow> (network list \<times> network) result" where
  "scan_step st raw =
     (case st of (networks, current_network) \<Rightarrow>
       (let line = strip raw in
        if contains ''Cell'' line \<and> contains ''Address:'' line then
          and_then (index (split line ''Address: '') 1) (\<lambda>address.
            Returned
              (if current_network \<noteq> no_network then networks @ [current_network] else networks,
               no_network\<lparr>net_bssid := Some address\<rparr>))
        else if contains ''ESSID:'' line then
          and_then (index (split line ''ESSID:'') 1) (\<lambda>rest.
            (let essid = strip_chars quote rest in
             Returned
               (networks,
                if essid \<noteq> [] then current_network\<lparr>net_ssid := Some essid\<rparr>
                else current_network)))
        else if contains ''Quality='' line then
          and_then (quality_of_line line) (\<lambda>quality.
            Returned
              (networks,
               case quality of
                 None \<Rightarrow> current_network
               | Some q \<Rightarrow> current_network\<lparr>net_quality := Some q\<rparr>))
        else if contains ''Encryption key:'' line then
          Returned (networks, current_network\<lparr>net_encrypted := Some (contains ''on'' (lower line))\<rparr>)
        else Returned (networks, current_network)))"

fun scan_lines :: "network list \<times> network \<Rightarrow> string list \<Rightarrow> (network list \<times> network) result" where
  "scan_lines st [] = Returned st"
| "scan_lines st (raw # rest) = and_then (scan_step st raw) (\<lambda>st'. scan_lines st' rest)"

text \<open>The list after the loop: the last dictionary is added when it is not empty.\<close>

definition flush :: "network list \<times> network \<Rightarrow> network list" where
  "flush st =
     (case st of (networks, current_network) \<Rightarrow>
        if current_network \<noteq> no_network then networks @ [current_network] else networks)"

text \<open>
  \<^verbatim>\<open>networks.sort(key=..., reverse=True)\<close>. The sort is stable; for a reverse sort
  the list is reversed, sorted in ascending order and reversed again, which keeps
  records of equal key in their first order.
\<close>

definition quality_key :: "network \<Rightarrow> int" where
  "quality_key x = (case net_quality x of None \<Rightarrow> 0 | Some q \<Rightarrow> q)"

definition sort_reverse :: "('a \<Rightarrow> int) \<Rightarrow> 'a list \<Rightarrow> 'a list" where
  "sort_reverse key xs = rev (sort_key key (rev xs))"

text \<open>
  \<^verbatim>\<open>WiFiManager.scan_networks\<close>: \<open>trigger\<close> and \<open>scan\<close> are what the two runs of
  \<^verbatim>\<open>iwlist wlan0 scan\<close> do. \<open>scan_networks_try\<close> is the body of the \<^verbatim>\<open>try\<close>
  statement; every exception that leaves it makes the method return the empty list.
\<close>

definition scan_networks_try :: "outcome \<Rightarrow> outcome \<Rightarrow> network list result" where
  "scan_networks_try trigger scan =
     and_then (subprocess_run False True trigger) (\<lambda>triggered.
     and_then (subprocess_run False True scan) (\<lambda>result.
     and_then (scan_lines ([], no_network) (split (snd result) nl)) (\<lambda>st.
       Returned (sort_reverse quality_key (flush st)))))"

definition scan_networks :: "outcome \<Rightarrow> outcome \<Rightarrow> network list result" where
  "scan_networks trigger scan =
     (case scan_networks_try trigger scan of Raised e \<Rightarrow> Returned [] | r \<Rightarrow> r)"







text \<open>Joining lines into a text.\<close>

definition unlines :: "string list \<Rightarrow> string" where
  "unlines ls = concat (map (\<lambda>l. l @ nl) ls)"

section \<open>Sample scans and configurations\<close>


text \<open>A scan output whose second stanza reports a zero maximum, and one whose only
  stanza reports more than its maximum.\<close>

definition survey_zero_max :: string where
  "survey_zero_max = unlines
     [''    Cell 01 - Address: AA:BB:CC:00:00:01'',
      ''        Quality=70/70  Signal level=-30 dBm'',
      ''    Cell 02 - Address: AA:BB:CC:00:00:02'',
      ''        Quality=5/0  Signal level=-80 dBm'',
      ''    Cell 03 - Address: AA:BB:CC:00:00:03'',
      ''        Quality=50/70  Signal level=-60 dBm'']"


text \<open>A world in which every command succeeds and the configuration file holds
  \<open>text\<close>.\<close>

definition with_conf :: "string \<Rightarrow> world" where
  "with_conf text =
     \<lparr>proc = (\<lambda>c. Exited 0 []), conf_read = Returned (Some text), conf_write = None,
      link = (\<lambda>k. linked ''Office'')\<rparr>"

text \<open>A configuration with a block for \<^verbatim>\<open>Home\<close> and a block for a hidden network that
  sets \<^verbatim>\<open>scan_ssid\<close> before \<^verbatim>\<open>ssid\<close>.\<close>

definition conf_hidden :: string where
  "conf_hidden = unlines
     [''ctrl_interface=DIR=/var/run/wpa_supplicant GROUP=netdev'',
      ''update_config=1'',
      '''',
      ''network={'',
      ''    ssid='' @ quote @ ''Home'' @ quote,
      ''    psk='' @ quote @ ''homepass'' @ quote,
      ''}'',
      ''network={'',
      ''    scan_ssid=1'',
      ''    ssid='' @ quote @ ''Attic'' @ quote,
      ''    psk='' @ quote @ ''atticpass'' @ quote,
      ''}'']"

section \<open>Properties of the hotspot methods\<close>

text \<open>\<^verbatim>\<open>stop_hotspot\<close> changes nothing but the hotspot flag, and clears it whenever it
  returns.\<close>

lemma stop_hotspot_state:
  "stop_hotspot run s = (r, s', issued) \<Longrightarrow> s' = s \<or> s' = s\<lparr>hotspot_active := False\<rparr>"
  by (auto simp: stop_hotspot_def stop_hotspot_try_def subprocess_run_def Let_def
      split: outcome.splits if_splits result.splits prod.splits)

lemma stop_hotspot_returned:
  "stop_hotspot run s = (Returned b, s', issued) \<Longrightarrow> s' = s\<lparr>hotspot_active := False\<rparr>"
  by (auto simp: stop_hotspot_def stop_hotspot_try_def subprocess_run_def Let_def
      split: outcome.splits if_splits result.splits prod.splits)

text \<open>\<^verbatim>\<open>start_hotspot\<close> either leaves the state alone or enters hotspot mode.\<close>

lemma start_hotspot_state:
  "start_hotspot run s = (r, s', issued) \<Longrightarrow>
     s' = s \<or> s' = s\<lparr>hotspot_active := True, connected := False, current_ssid := None,
                      ip_address := Some ''192.168.24.1''\<rparr>"
  by (auto simp: start_hotspot_def subprocess_run_def Let_def
      split: outcome.splits if_splits result.splits prod.splits)

text \<open>
  Claim C2. Whatever the starting state and whatever the helper script does (exit 0,
  non-zero exit, timeout, missing script), the hotspot flag is false once
  \<^verbatim>\<open>stop_hotspot\<close> has returned. The call does return unless a command may not be
  executed (the \<^verbatim>\<open>PermissionError\<close> is not caught) or a manual command, started
  without a timeout, never exits.
\<close>

theorem stop_hotspot_leaves_hotspot_mode:
  assumes "stop_hotspot run s = (r, s', issued)"
  shows "(\<forall>b. r = Returned b \<longrightarrow> \<not> hotspot_active s') \<and>
         ((\<forall>c. run c \<noteq> Denied) \<and> run StopHostapd \<noteq> RunsOver \<and> run StopDnsmasq \<noteq> RunsOver \<and>
          run FlushWlan0 \<noteq> RunsOver \<longrightarrow> (\<exists>b. r = Returned b))"
proof (intro conjI allI impI)
  fix b assume "r = Returned b"
  with assms show "\<not> hotspot_active s'"
    by (auto dest: stop_hotspot_returned)
next
  assume "(\<forall>c. run c \<noteq> Denied) \<and> run StopHostapd \<noteq> RunsOver \<and> run StopDnsmasq \<noteq> RunsOver \<and>
          run FlushWlan0 \<noteq> RunsOver"
  with assms show "\<exists>b. r = Returned b"
    by (auto simp: stop_hotspot_def stop_hotspot_try_def subprocess_run_def Let_def
        split: outcome.splits if_splits result.splits prod.splits)
qed

theorem stop_hotspot_leaves_hotspot_mode_witness:
  "stop_hotspot (\<lambda>c. if c = HotspotStop then NotFound else Exited 0 []) hotspot_up =
     (Returned False, hotspot_up\<lparr>hotspot_active := False\<rparr>, [HotspotStop]) \<and>
   hotspot_active hotspot_up \<and>
   \<not> hotspot_active (hotspot_up\<lparr>hotspot_active := False\<rparr>)"
proof -
  have run: "stop_hotspot (\<lambda>c. if c = HotspotStop then NotFound else Exited 0 []) hotspot_up =
     (Returned False, hotspot_up\<lparr>hotspot_active := False\<rparr>, [HotspotStop])"
    by (simp add: stop_hotspot_def stop_hotspot_try_def subprocess_run_def)
  from stop_hotspot_leaves_hotspot_mode[OF run] run show ?thesis
    by (simp add: hotspot_up_def)
qed

text \<open>
  Claim C9 says that \<^verbatim>\<open>stop_hotspot\<close> returns \<^verbatim>\<open>True\<close> once the helper script has
  succeeded, whatever the restart of \<^verbatim>\<open>dhcpcd\<close> does. The restart runs inside the
  \<^verbatim>\<open>try\<close> statement with a timeout of its own: when it outlasts the timeout, the
  \<^verbatim>\<open>except\<close> clause written for the helper catches the \<^verbatim>\<open>TimeoutExpired\<close> and the
  call returns \<^verbatim>\<open>False\<close>.
\<close>

theorem stop_hotspot_dhcpcd_timeout:
  "stop_hotspot dhcpcd_slow hotspot_up =
     (Returned False, hotspot_up\<lparr>hotspot_active := False\<rparr>, [HotspotStop, RestartDhcpcd])"
  by (simp add: stop_hotspot_def stop_hotspot_try_def subprocess_run_def dhcpcd_slow_def)

text \<open>
  Claim C8 says that after a failure of the helper script each of the three manual
  commands is issued even if an earlier one fails. Each is run with \<^verbatim>\<open>check=True\<close>:
  when stopping \<^verbatim>\<open>hostapd\<close> fails, the \<^verbatim>\<open>CalledProcessError\<close> ends the sequence and
  the other two commands are never issued.
\<close>

theorem stop_hotspot_fallback_cut_short:
  "stop_hotspot hostapd_stuck hotspot_up =
     (Returned False, hotspot_up\<lparr>hotspot_active := False\<rparr>, [HotspotStop, StopHostapd]) \<and>
   StopDnsmasq \<notin> set (snd (snd (stop_hotspot hostapd_stuck hotspot_up))) \<and>
   FlushWlan0 \<notin> set (snd (snd (stop_hotspot hostapd_stuck hotspot_up)))"
  by (simp add: stop_hotspot_def stop_hotspot_try_def subprocess_run_def hostapd_stuck_def)

text \<open>
  Claim C8, amended. After a failure of the helper script the manual commands are issued
  in order, each one only if all the earlier ones returned 0; stopping \<^verbatim>\<open>hostapd\<close> is
  always issued. Whenever the call returns, it returns \<^verbatim>\<open>False\<close> with the hotspot
  flag cleared, and it returns \<^verbatim>\<open>False\<close> when no command hangs or is refused.
\<close>

theorem stop_hotspot_fallback:
  assumes "run HotspotStop = Exited rc out" and "rc \<noteq> 0"
    and "stop_hotspot run s = (r, s', issued)"
  shows "issued = HotspotStop # StopHostapd #
           (if exits_zero (run StopHostapd)
            then StopDnsmasq # (if exits_zero (run StopDnsmasq) then [FlushWlan0] else [])
            else []) \<and>
         (\<forall>b. r = Returned b \<longrightarrow> \<not> b \<and> \<not> hotspot_active s') \<and>
         ((\<forall>c. run c \<noteq> Denied \<and> run c \<noteq> RunsOver) \<longrightarrow> r = Returned False)"
  using assms
  by (auto simp: stop_hotspot_def stop_hotspot_try_def subprocess_run_def exits_zero_def
      split: outcome.splits if_splits result.splits prod.splits)

theorem stop_hotspot_fallback_witness:
  "stop_hotspot (\<lambda>c. if c = FlushWlan0 then Exited 0 [] else Exited 1 []) hotspot_up =
     (Returned False, hotspot_up\<lparr>hotspot_active := False\<rparr>, [HotspotStop, StopHostapd])"
proof -
  obtain r s' issued where run:
    "stop_hotspot (\<lambda>c. if c = FlushWlan0 then Exited 0 [] else Exited 1 []) hotspot_up = (r, s', issued)"
    by (metis prod.collapse)
  from stop_hotspot_fallback[OF _ _ run, of 1 "[]"] stop_hotspot_returned[of _ hotspot_up False s' issued] run
  show ?thesis
    by (simp add: exits_zero_def)
qed

section \<open>Properties of connecting\<close>

lemma probe_never_raises: "get_current_network_info obs \<noteq> Raised e"
  by (auto simp: get_current_network_info_def catching_def subprocess_run_def Let_def
      split: outcome.splits if_splits result.splits)

lemma connect_wait_state:
  "connect_wait w ssid password a n s = (r, s', polls) \<Longrightarrow>
     (r = Returned True \<and> (\<exists>ip. s' = joined ssid password ip s)) \<or> (r \<noteq> Returned True \<and> s' = s)"
  by (induction w ssid password a n s rule: connect_wait.induct)
     (auto split: result.splits if_splits)

lemma connect_wait_true:
  "connect_wait w ssid password a n s = (Returned True, s', polls) \<Longrightarrow>
     \<exists>k. a \<le> k \<and> k < a + n \<and> matches w ssid k"
proof (induction w ssid password a n s rule: connect_wait.induct)
  case (1 w ssid password attempt s)
  then show ?case by simp
next
  case (2 w ssid password attempt left s)
  show ?case
  proof (cases "matches w ssid attempt")
    case True
    then show ?thesis by (intro exI[of _ attempt]) simp
  next
    case False
    with "2.prems" obtain info where
      info: "get_current_network_info (link w attempt) = Returned info"
      and rest: "connect_wait w ssid password (Suc attempt) left s = (Returned True, s', polls)"
      by (auto simp: matches_def split: result.splits if_splits)
    from False info have "\<not> (ni_connected info \<and> ni_ssid info = Some ssid)"
      by (simp add: matches_def)
    from "2.IH"[OF info this rest] obtain k where
      "Suc attempt \<le> k" "k < Suc attempt + left" "matches w ssid k" by blast
    then show ?thesis by (intro exI[of _ k]) simp
  qed
qed

lemma connect_wait_exhaust:
  "\<forall>k. a \<le> k \<and> k < a + n \<longrightarrow> \<not> matches w ssid k \<and> get_current_network_info (link w k) \<noteq> Hangs \<Longrightarrow>
     connect_wait w ssid password a n s = (Returned False, s, a + n)"
proof (induction n arbitrary: a)
  case 0
  then show ?case by simp
next
  case (Suc n)
  from Suc.prems have here: "\<not> matches w ssid a" "get_current_network_info (link w a) \<noteq> Hangs"
    by auto
  from Suc.prems have "\<forall>k. Suc a \<le> k \<and> k < Suc a + n \<longrightarrow>
      \<not> matches w ssid k \<and> get_current_network_info (link w k) \<noteq> Hangs"
    by auto
  then have "connect_wait w ssid password (Suc a) n s = (Returned False, s, Suc a + n)"
    by (rule Suc.IH)
  with here show ?case
    by (auto simp: matches_def probe_never_raises split: result.splits)
qed

lemma connect_wait_first:
  assumes "matches w ssid k" "a \<le> k" "k < a + n"
    and "\<forall>j. a \<le> j \<and> j < k \<longrightarrow> \<not> matches w ssid j \<and> get_current_network_info (link w j) \<noteq> Hangs"
    and "get_current_network_info (link w k) = Returned info"
  shows "connect_wait w ssid password a n s =
           (Returned True, joined ssid password (ni_ip_address info) s, Suc k)"
  using assms
proof (induction n arbitrary: a)
  case 0
  then show ?case by simp
next
  case (Suc n)
  show ?case
  proof (cases "a = k")
    case True
    with Suc.prems show ?thesis by (simp add: matches_def)
  next
    case False
    with Suc.prems have lt: "a < k" by simp
    with Suc.prems have here: "\<not> matches w ssid a" "get_current_network_info (link w a) \<noteq> Hangs"
      by auto
    have "connect_wait w ssid password (Suc a) n s =
           (Returned True, joined ssid password (ni_ip_address info) s, Suc k)"
      using Suc.prems lt by (intro Suc.IH) auto
    with here show ?thesis
      by (auto simp: matches_def probe_never_raises split: result.splits)
  qed
qed

lemma joined_hotspot_active [simp]:
  "joined ssid password ip (s\<lparr>hotspot_active := b\<rparr>) = joined ssid password ip s"
  by (simp add: joined_def)

lemma connect_to_network_try_state:
  assumes "connect_to_network_try w ssid password s = (r, s', polls)"
  shows "(r = Returned True \<and> (\<exists>ip. s' = joined ssid password ip s) \<and> (\<exists>k<30. matches w ssid k))
       \<or> (r \<noteq> Returned True \<and> (s' = s \<or> s' = s\<lparr>hotspot_active := False\<rparr>))"
proof -
  define s1 where "s1 = (if hotspot_active s then fst (snd (stop_hotspot (proc w) s)) else s)"
  have s1: "s1 = s \<or> s1 = s\<lparr>hotspot_active := False\<rparr>"
    using stop_hotspot_state[of "proc w" s] by (auto simp: s1_def) (metis prod.collapse)
  show ?thesis
  proof (cases "\<exists>n. (r, s', polls) = connect_wait w ssid password 0 30 s1")
    case True
    then have cw: "connect_wait w ssid password 0 30 s1 = (r, s', polls)" by auto
    from connect_wait_state[OF cw] connect_wait_true[of w ssid password 0 30 s1 s' polls] cw s1
    show ?thesis by auto
  next
    case False
    with assms have "r \<noteq> Returned True \<and> s' = s1"
      by (auto simp: connect_to_network_try_def s1_def split: prod.splits result.splits if_splits)
    with s1 show ?thesis by auto
  qed
qed

lemma connect_to_network_state:
  assumes "connect_to_network w ssid password s = (r, s', polls)"
  shows "(r = Returned True \<and> (\<exists>ip. s' = joined ssid password ip s) \<and> (\<exists>k<30. matches w ssid k))
       \<or> (r \<noteq> Returned True \<and> (s' = s \<or> s' = s\<lparr>hotspot_active := False\<rparr>))"
proof -
  from assms have "connect_to_network_try w ssid password s = (r, s', polls) \<or>
     (r = Returned False \<and> (\<exists>e. connect_to_network_try w ssid password s = (Raised e, s', polls)))"
    by (auto simp: connect_to_network_def split: prod.splits result.splits)
  then show ?thesis
    by (auto dest!: connect_to_network_try_state)
qed

lemma connect_state:
  assumes "connect w s = (r, s', polls)"
  shows "(\<exists>ssid password ip. s' = joined ssid password ip s) \<or> s' = s \<or> s' = s\<lparr>hotspot_active := False\<rparr>"
  using assms
  by (auto simp: connect_def split: option.splits if_splits dest!: connect_to_network_state)

lemma connect_reaches_polling:
  assumes "hotspot_active s \<longrightarrow> (\<exists>b. fst (stop_hotspot (proc w) s) = Returned b)"
    and "fst (update_wpa_supplicant w ssid password) = Returned True"
    and "proc w RestartWpaSupplicant = Exited rc1 out1"
    and "proc w WpaCliReconfigure = Exited rc2 out2"
  shows "connect_to_network_try w ssid password s =
           connect_wait w ssid password 0 30 (s\<lparr>hotspot_active := False\<rparr>)"
proof (cases "hotspot_active s")
  case True
  with assms(1) obtain b s1 issued where st: "stop_hotspot (proc w) s = (Returned b, s1, issued)"
    by (metis prod.collapse)
  from stop_hotspot_returned[OF st] have "s1 = s\<lparr>hotspot_active := False\<rparr>" .
  with st True assms(2-4) show ?thesis
    by (simp add: connect_to_network_try_def subprocess_run_def)
next
  case False
  then have same: "s\<lparr>hotspot_active := False\<rparr> = s" by simp
  from False assms(2-4) show ?thesis
    by (simp add: connect_to_network_try_def subprocess_run_def same)
qed

lemma linked_office:
  "get_current_network_info (linked ''Office'') =
     Returned \<lparr>ni_ssid = Some ''Office'', ni_ip_address = Some ''10.0.0.7'',
               ni_signal_strength = None, ni_connected = True\<rparr>"
  by code_simp

lemma linked_home:
  "get_current_network_info (linked ''Home'') =
     Returned \<lparr>ni_ssid = Some ''Home'', ni_ip_address = Some ''10.0.0.7'',
               ni_signal_strength = None, ni_connected = True\<rparr>"
  by code_simp

text \<open>
  Claim C1 says that a call whose 30 polls all fail to match returns \<^verbatim>\<open>False\<close> with
  the state Disconnected. The failure path assigns nothing: a manager that was joined to
  \<^verbatim>\<open>Office\<close> before the call still has \<open>connected\<close> set and still names
  \<^verbatim>\<open>Office\<close> afterwards.
\<close>

theorem connect_keeps_client_state:
  "connect_to_network (home_after 40) ''Home'' ''pw'' at_office = (Returned False, at_office, 30) \<and>
   fst (update_wpa_supplicant (home_after 40) ''Home'' ''pw'') = Returned True \<and>
   connected at_office \<and> current_ssid at_office = Some ''Office''"
  by code_simp

text \<open>
  Claim C1, amended. Take a call of \<^verbatim>\<open>connect_to_network\<close> that reaches the polling
  loop (stopping an active hotspot returns, the configuration write succeeds, the two
  supplicant commands exit) and whose probes all come back. If some poll among the 30
  reports a connected link with the requested ssid, then at the first such poll the call
  returns \<^verbatim>\<open>True\<close> with the client fields set from the request and that probe, the
  hotspot flag cleared and the credentials stored, and no further poll is made.
  If none of the 30 polls matches, the call returns \<^verbatim>\<open>False\<close> after exactly 30 polls
  and only the hotspot flag may have changed (it is false): \<open>connected\<close>,
  \<open>current_ssid\<close> and \<open>ip_address\<close> are what they were before the call.
\<close>

theorem connect_to_network_polls:
  assumes "hotspot_active s \<longrightarrow> (\<exists>b. fst (stop_hotspot (proc w) s) = Returned b)"
    and "fst (update_wpa_supplicant w ssid password) = Returned True"
    and "proc w RestartWpaSupplicant = Exited rc1 out1"
    and "proc w WpaCliReconfigure = Exited rc2 out2"
    and "\<forall>k<30. get_current_network_info (link w k) \<noteq> Hangs"
  shows "(\<forall>k network_info.
            k < 30 \<and> matches w ssid k \<and> (\<forall>j<k. \<not> matches w ssid j) \<and>
            get_current_network_info (link w k) = Returned network_info \<longrightarrow>
            connect_to_network w ssid password s =
              (Returned True, joined ssid password (ni_ip_address network_info) s, Suc k)) \<and>
         ((\<forall>k<30. \<not> matches w ssid k) \<longrightarrow>
            connect_to_network w ssid password s =
              (Returned False, s\<lparr>hotspot_active := False\<rparr>, 30))"
proof (intro conjI allI impI)
  fix k network_info
  assume a: "k < 30 \<and> matches w ssid k \<and> (\<forall>j<k. \<not> matches w ssid j) \<and>
            get_current_network_info (link w k) = Returned network_info"
  with assms(5) have "connect_wait w ssid password 0 30 (s\<lparr>hotspot_active := False\<rparr>) =
      (Returned True, joined ssid password (ni_ip_address network_info) (s\<lparr>hotspot_active := False\<rparr>), Suc k)"
    by (intro connect_wait_first) auto
  with connect_reaches_polling[OF assms(1-4)]
  show "connect_to_network w ssid password s =
              (Returned True, joined ssid password (ni_ip_address network_info) s, Suc k)"
    by (simp add: connect_to_network_def)
next
  assume "\<forall>k<30. \<not> matches w ssid k"
  with assms(5) have "connect_wait w ssid password 0 30 (s\<lparr>hotspot_active := False\<rparr>) =
      (Returned False, s\<lparr>hotspot_active := False\<rparr>, 0 + 30)"
    by (intro connect_wait_exhaust) auto
  with connect_reaches_polling[OF assms(1-4)]
  show "connect_to_network w ssid password s = (Returned False, s\<lparr>hotspot_active := False\<rparr>, 30)"
    by (simp add: connect_to_network_def)
qed

theorem connect_to_network_polls_witness:
  "connect_to_network (home_after 2) ''Home'' ''pw'' hotspot_up =
     (Returned True, joined ''Home'' ''pw'' (Some ''10.0.0.7'') hotspot_up, 3)"
proof -
  have m: "matches (home_after 2) ''Home'' k \<longleftrightarrow> 2 \<le> k" for k
    by (simp add: matches_def home_after_def linked_office linked_home)
  have p: "get_current_network_info (link (home_after 2) k) \<noteq> Hangs" for k
    by (simp add: home_after_def linked_office linked_home)
  have 1: "hotspot_active hotspot_up \<longrightarrow>
      (\<exists>b. fst (stop_hotspot (proc (home_after 2)) hotspot_up) = Returned b)"
    by (auto simp: stop_hotspot_def stop_hotspot_try_def subprocess_run_def home_after_def)
  have 2: "fst (update_wpa_supplicant (home_after 2) ''Home'' ''pw'') = Returned True"
    by code_simp
  have 3: "proc (home_after 2) RestartWpaSupplicant = Exited 0 []"
    and 4: "proc (home_after 2) WpaCliReconfigure = Exited 0 []"
    by (simp_all add: home_after_def)
  have 5: "\<forall>k<30. get_current_network_info (link (home_after 2) k) \<noteq> Hangs"
    using p by simp
  have 6: "get_current_network_info (link (home_after 2) 2) =
     Returned \<lparr>ni_ssid = Some ''Home'', ni_ip_address = Some ''10.0.0.7'',
               ni_signal_strength = None, ni_connected = True\<rparr>"
    by (simp add: home_after_def linked_home)
  have first: "2 < (30::nat) \<and> matches (home_after 2) ''Home'' 2 \<and>
      (\<forall>j<2. \<not> matches (home_after 2) ''Home'' j) \<and>
      get_current_network_info (link (home_after 2) 2) =
        Returned \<lparr>ni_ssid = Some ''Home'', ni_ip_address = Some ''10.0.0.7'',
                  ni_signal_strength = None, ni_connected = True\<rparr>"
    using m 6 by simp
  from connect_to_network_polls[OF 1 2 3 4 5, THEN conjunct1, rule_format, OF first]
  show ?thesis by simp
qed

text \<open>
  Claim C10. \<^verbatim>\<open>connect_to_network\<close> stores the credentials only when it returns
  \<^verbatim>\<open>True\<close>, which needs a matching poll among the 30; on every other path (and
  when the call never comes back) the configuration object is unchanged.
\<close>

theorem credentials_only_on_success:
  assumes "connect_to_network w ssid password s = (r, s', polls)"
  shows "(r = Returned True \<longrightarrow>
            cfg_ssid (config s') = Some ssid \<and> cfg_password (config s') = password \<and>
            (\<exists>k<30. matches w ssid k)) \<and>
         (r \<noteq> Returned True \<longrightarrow> config s' = config s)"
  using connect_to_network_state[OF assms]
  by (auto simp: joined_def)

theorem credentials_only_on_success_witness:
  "connect_to_network (home_after 2) ''Home'' ''pw'' hotspot_up =
     (Returned True, joined ''Home'' ''pw'' (Some ''10.0.0.7'') hotspot_up, 3) \<and>
   cfg_ssid (config hotspot_up) = None \<and>
   cfg_ssid (config (joined ''Home'' ''pw'' (Some ''10.0.0.7'') hotspot_up)) = Some ''Home'' \<and>
   cfg_password (config (joined ''Home'' ''pw'' (Some ''10.0.0.7'') hotspot_up)) = ''pw''"
proof -
  have run: "connect_to_network (home_after 2) ''Home'' ''pw'' hotspot_up =
     (Returned True, joined ''Home'' ''pw'' (Some ''10.0.0.7'') hotspot_up, 3)"
    by code_simp
  from credentials_only_on_success[OF run] show ?thesis
    using run by (simp add: hotspot_up_def init_def loop_config_def)
qed

section \<open>The mode invariant\<close>

text \<open>
  Claim C3. In every state reachable from the initial one by calls of
  \<^verbatim>\<open>connect_to_network\<close>, \<^verbatim>\<open>connect\<close>, \<^verbatim>\<open>start_hotspot\<close>, \<^verbatim>\<open>stop_hotspot\<close>,
  \<^verbatim>\<open>get_status\<close> and \<^verbatim>\<open>cleanup\<close>, the client flag and the hotspot flag are never
  both set, and \<open>current_ssid\<close> is set only in client mode.
\<close>

theorem mode_invariant:
  "reachable s \<Longrightarrow>
     \<not> (connected s \<and> hotspot_active s) \<and> (current_ssid s \<noteq> None \<longrightarrow> connected s \<and> \<not> hotspot_active s)"
proof (induction s rule: reachable.induct)
  case (initial wifi_config)
  show ?case by (simp add: init_def)
next
  case (after_connect_to_network s w ssid password r s' polls)
  then show ?case
    by (auto dest!: connect_to_network_state simp: joined_def)
next
  case (after_connect s w r s' polls)
  then show ?case
    by (auto dest!: connect_state simp: joined_def)
next
  case (after_start_hotspot s run r s' issued)
  then show ?case by (auto dest!: start_hotspot_state)
next
  case (after_stop_hotspot s run r s' issued)
  then show ?case by (auto dest!: stop_hotspot_state)
next
  case (after_get_status s obs q s')
  then show ?case by (auto simp: get_status_def split: result.splits)
next
  case (after_cleanup s run u s')
  then show ?case
    by (auto simp: cleanup_def split: if_splits prod.splits result.splits dest!: stop_hotspot_state)
qed

theorem mode_invariant_witness:
  "reachable (joined ''Home'' ''pw'' (Some ''10.0.0.7'') (init loop_config)) \<and>
   connected (joined ''Home'' ''pw'' (Some ''10.0.0.7'') (init loop_config)) \<and>
   current_ssid (joined ''Home'' ''pw'' (Some ''10.0.0.7'') (init loop_config)) = Some ''Home'' \<and>
   \<not> hotspot_active (joined ''Home'' ''pw'' (Some ''10.0.0.7'') (init loop_config))"
proof -
  have "connect_to_network (home_after 0) ''Home'' ''pw'' (init loop_config) =
          (Returned True, joined ''Home'' ''pw'' (Some ''10.0.0.7'') (init loop_config), 1)"
    by code_simp
  with reachable.initial[of loop_config]
  have r: "reachable (joined ''Home'' ''pw'' (Some ''10.0.0.7'') (init loop_config))"
    by (rule reachable.after_connect_to_network)
  from mode_invariant[OF r] r show ?thesis
    by (simp add: joined_def)
qed

section \<open>Properties of the scan\<close>















section \<open>Properties of the quality value\<close>






















text \<open>
  Claim C5 says that a stanza with a malformed quality ratio, a zero maximum included,
  yields a record without quality and that the scan goes on. The \<^verbatim>\<open>except\<close> clause
  around the quality computation catches \<^verbatim>\<open>IndexError\<close> and \<^verbatim>\<open>ValueError\<close> only: the
  ratio \<^verbatim>\<open>5/0\<close> raises \<^verbatim>\<open>ZeroDivisionError\<close>, which leaves the loop, and the method
  returns the empty list although the first and the third stanza are well formed.
  (A ratio that is not a number is tolerated: see the second stanza of \<open>survey\<close> in
  \<open>survey_scan\<close>.)
\<close>

theorem scan_aborts_on_zero_maximum:
  "scan_networks_try (Exited 0 []) (Exited 0 survey_zero_max) = Raised ZeroDivisionError \<and>
   scan_networks (Exited 0 []) (Exited 0 survey_zero_max) = Returned []"
  by code_simp

section \<open>Properties of the configuration rewrite\<close>

text \<open>
  Claim C4 says that the rewrite reproduces every block of another ssid byte for byte and
  leaves at most one block for the target. The loop reads the ssid of a block as the text
  between the first and the second equals sign of its \<^verbatim>\<open>ssid=\<close> line, and it starts
  collecting a block at that line only. So a second call for the ssid \<^verbatim>\<open>Cafe=Free\<close>
  does not recognise the block the first call wrote and the file then holds two blocks
  for it; and the block of the hidden network \<^verbatim>\<open>Attic\<close> loses the \<^verbatim>\<open>scan_ssid\<close> line
  that stood before its \<^verbatim>\<open>ssid=\<close> line.
\<close>

theorem update_wpa_supplicant_spoils_blocks:
  "update_wpa_supplicant (with_conf (concat (new_block ''Cafe=Free'' ''latte'')))
      ''Cafe=Free'' ''latte'' =
     (Returned True,
      Some (concat (new_block ''Cafe=Free'' ''latte'' @ new_block ''Cafe=Free'' ''latte''))) \<and>
   update_wpa_supplicant (with_conf conf_hidden) ''Cafe'' ''latte'' =
     (Returned True,
      Some (unlines
              [''ctrl_interface=DIR=/var/run/wpa_supplicant GROUP=netdev'',
               ''update_config=1'',
               '''',
               ''network={'',
               ''    ssid='' @ quote @ ''Home'' @ quote,
               ''    psk='' @ quote @ ''homepass'' @ quote,
               ''}'',
               ''network={'',
               ''    ssid='' @ quote @ ''Attic'' @ quote,
               ''    psk='' @ quote @ ''atticpass'' @ quote,
               ''}''] @
            concat (new_block ''Cafe'' ''latte'')))"
  by code_simp

end
